theory Spec2Isabelle
  imports Complex_Main
begin

section \<open>JavaScript values\<close>

text \<open>
  The cascade engine and the revenue optimizer read their inputs from database rows, cached
  JSON and parsed rule documents, so a field may hold a number, a string, a boolean,
  \<^verbatim>\<open>null\<close>, or be missing (\<^verbatim>\<open>undefined\<close>). Numbers are modelled as exact reals:
  JSON carries no NaN or infinity, and a NaN that arises from a conversion is the value
  \<open>None\<close> of \<open>toNumber\<close>.
\<close>

datatype jsval = JUndefined | JNull | JBool bool | JNum real | JStr string

text \<open>\<^verbatim>\<open>if (v)\<close>, \<^verbatim>\<open>v && ...\<close>, \<^verbatim>\<open>!v\<close>: the falsy values are undefined, null, false, 0 and
  the empty string.\<close>

fun truthy :: "jsval \<Rightarrow> bool" where
  "truthy JUndefined = False"
| "truthy JNull = False"
| "truthy (JBool b) = b"
| "truthy (JNum n) = (n \<noteq> 0)"
| "truthy (JStr s) = (s \<noteq> [])"

text \<open>
  The conversion of a string to a number is the language's own (\<^verbatim>\<open>StringToNumber\<close>) and is
  taken as a parameter \<open>sn\<close> of every function that may compare a string with a number;
  \<open>None\<close> is NaN. Every theorem below holds for each such conversion.
\<close>

type_synonym strnum = "string \<Rightarrow> real option"

fun toNumber :: "strnum \<Rightarrow> jsval \<Rightarrow> real option" where
  "toNumber sn JUndefined = None"
| "toNumber sn JNull = Some 0"
| "toNumber sn (JBool b) = Some (if b then 1 else 0)"
| "toNumber sn (JNum n) = Some n"
| "toNumber sn (JStr s) = sn s"

text \<open>Two strings are compared by their code units, position by position.\<close>

fun str_lt :: "string \<Rightarrow> string \<Rightarrow> bool" where
  "str_lt [] [] = False"
| "str_lt [] (y # ys) = True"
| "str_lt (x # xs) [] = False"
| "str_lt (x # xs) (y # ys) =
     (if (of_char x :: nat) < of_char y then True
      else if (of_char y :: nat) < of_char x then False
      else str_lt xs ys)"

text \<open>\<^verbatim>\<open>a < b\<close>: two strings compare as strings, anything else as numbers, and a comparison with
  NaN is false.\<close>

fun js_lt :: "strnum \<Rightarrow> jsval \<Rightarrow> jsval \<Rightarrow> bool" where
  "js_lt sn (JStr a) (JStr b) = str_lt a b"
| "js_lt sn a b =
     (case toNumber sn a of None \<Rightarrow> False
      | Some x \<Rightarrow> (case toNumber sn b of None \<Rightarrow> False | Some y \<Rightarrow> x < y))"

text \<open>\<^verbatim>\<open>a > b\<close> is \<^verbatim>\<open>b < a\<close>.\<close>

definition js_gt :: "strnum \<Rightarrow> jsval \<Rightarrow> jsval \<Rightarrow> bool" where
  "js_gt sn a b = js_lt sn b a"

text \<open>\<^verbatim>\<open>a >= b\<close> and \<^verbatim>\<open>a <= b\<close>: false when either side is NaN, otherwise the negation of the
  strict comparison the other way round.\<close>

fun js_ge :: "strnum \<Rightarrow> jsval \<Rightarrow> jsval \<Rightarrow> bool" where
  "js_ge sn (JStr a) (JStr b) = (\<not> str_lt a b)"
| "js_ge sn a b =
     (case toNumber sn a of None \<Rightarrow> False
      | Some x \<Rightarrow> (case toNumber sn b of None \<Rightarrow> False | Some y \<Rightarrow> y \<le> x))"

definition js_le :: "strnum \<Rightarrow> jsval \<Rightarrow> jsval \<Rightarrow> bool" where
  "js_le sn a b = js_ge sn b a"

text \<open>\<^verbatim>\<open>Math.round\<close> rounds half up; \<^verbatim>\<open>Math.round(x * 100) / 100\<close> rounds to cents.\<close>

definition js_round :: "real \<Rightarrow> real" where
  "js_round x = of_int \<lfloor>x + 1 / 2\<rfloor>"

definition round_cents :: "real \<Rightarrow> real" where
  "round_cents x = js_round (x * 100) / 100"

section \<open>Customer snapshot and rule conditions\<close>

text \<open>
  The client profile as \<^verbatim>\<open>getClientProfile\<close> builds it (the client row, the order
  aggregates and the recent vehicles). \<open>vehicles\<close> holds the \<^verbatim>\<open>condition\<close> of each recent
  vehicle; \<open>None\<close> is a profile without a \<^verbatim>\<open>vehicles\<close> array. \<open>lastOrderDate\<close> is the time
  of the last completed order in milliseconds: \<open>None\<close> when it is null or missing,
  \<open>Some None\<close> when it does not parse as a date.
\<close>

record client =
  client_id :: nat
  credit_score :: jsval
  vehicle_value :: jsval
  annual_income :: jsval
  journey_stage :: jsval
  client_type :: jsval
  business_name :: jsval
  vehicles :: "jsval list option"
  lastOrderDate :: "real option option"
  totalSpent :: jsval
  totalOrders :: jsval
  services_count :: jsval

text \<open>A parsed condition document: an object, key by key. \<open>None\<close> is \<^verbatim>\<open>null\<close>.\<close>

type_synonym conditions = "(string \<times> jsval) list"

definition cget :: "conditions \<Rightarrow> string \<Rightarrow> jsval" where
  "cget c k = (case map_of c k of None \<Rightarrow> JUndefined | Some v \<Rightarrow> v)"

datatype log_entry =
    ErrorEvaluatingConditions
  | ErrorCheckingExistingService
  | LoadedRules nat nat

datatype js_error = TypeError

subsection \<open>Helper methods for condition evaluation\<close>

definition hasFinancingNeed :: "strnum \<Rightarrow> client \<Rightarrow> bool" where
  "hasFinancingNeed sn cl =
     (js_lt sn (credit_score cl) (JNum 700) \<or> js_gt sn (vehicle_value cl) (JNum 50000))"

definition hasVehiclePurchaseIntent :: "client \<Rightarrow> bool" where
  "hasVehiclePurchaseIntent cl =
     (journey_stage cl = JStr ''consideration'' \<or> journey_stage cl = JStr ''purchase'')"

definition hasBusinessFinancingNeed :: "client \<Rightarrow> bool" where
  "hasBusinessFinancingNeed cl =
     (client_type cl = JStr ''business'' \<or> truthy (business_name cl))"

text \<open>\<^verbatim>\<open>client.vehicles.some(...)\<close> throws a TypeError when the profile has no vehicles array.\<close>

definition hasVehicleConditionIssues :: "client \<Rightarrow> js_error + bool" where
  "hasVehicleConditionIssues cl =
     (case vehicles cl of
        None \<Rightarrow> Inl TypeError
      | Some vs \<Rightarrow> Inr (list_ex (\<lambda>v. v \<in> set [JStr ''fair'', JStr ''poor'']) vs))"

text \<open>\<open>now\<close> is \<^verbatim>\<open>Date.now()\<close> in milliseconds. The result is NaN (\<open>None\<close>) for a date that
  does not parse.\<close>

definition getDaysSinceLastOrder :: "real \<Rightarrow> client \<Rightarrow> real option" where
  "getDaysSinceLastOrder now cl =
     (case lastOrderDate cl of
        None \<Rightarrow> Some 999
      | Some None \<Rightarrow> None
      | Some (Some t) \<Rightarrow> Some (of_int \<lfloor>(now - t) / (24 * 60 * 60 * 1000)\<rfloor>))"

definition needsCreditImprovement :: "strnum \<Rightarrow> client \<Rightarrow> bool" where
  "needsCreditImprovement sn cl = js_lt sn (credit_score cl) (JNum 650)"

definition hasComplexLegalNeeds :: "strnum \<Rightarrow> client \<Rightarrow> bool" where
  "hasComplexLegalNeeds sn cl =
     (client_type cl = JStr ''business'' \<or> js_gt sn (totalSpent cl) (JNum 100000))"

text \<open>\<^verbatim>\<open>daysSinceLastOrder < conditions.min_days_since_last_order\<close>: the left side is a
  number or NaN.\<close>

definition days_lt :: "strnum \<Rightarrow> real option \<Rightarrow> jsval \<Rightarrow> bool" where
  "days_lt sn d v =
     (case d of None \<Rightarrow> False
      | Some x \<Rightarrow> (case toNumber sn v of None \<Rightarrow> False | Some y \<Rightarrow> x < y))"

subsection \<open>evaluateConditions\<close>

text \<open>The body of the \<^verbatim>\<open>try\<close> block: the chain of early returns, in the order of the source.
  The service order is passed and never read.\<close>

definition evaluateConditions_try ::
  "strnum \<Rightarrow> real \<Rightarrow> conditions option \<Rightarrow> client \<Rightarrow> 'o \<Rightarrow> js_error + bool" where
  "evaluateConditions_try sn now conds cl serviceOrder =
     (case conds of
        None \<Rightarrow> Inr True
      | Some c \<Rightarrow>
          if map fst c = [] then Inr True
          else if truthy (cget c ''min_credit_score'')
                  \<and> js_lt sn (credit_score cl) (cget c ''min_credit_score'') then Inr False
          else if truthy (cget c ''max_credit_score'')
                  \<and> js_gt sn (credit_score cl) (cget c ''max_credit_score'') then Inr False
          else if truthy (cget c ''min_vehicle_value'')
                  \<and> js_lt sn (vehicle_value cl) (cget c ''min_vehicle_value'') then Inr False
          else if truthy (cget c ''min_annual_income'')
                  \<and> js_lt sn (annual_income cl) (cget c ''min_annual_income'') then Inr False
          else if truthy (cget c ''journey_stage'')
                  \<and> journey_stage cl \<noteq> cget c ''journey_stage'' then Inr False
          else if truthy (cget c ''financing_needed'')
                  \<and> \<not> hasFinancingNeed sn cl then Inr False
          else if truthy (cget c ''vehicle_purchase_intent'')
                  \<and> \<not> hasVehiclePurchaseIntent cl then Inr False
          else if truthy (cget c ''business_financing_needed'')
                  \<and> \<not> hasBusinessFinancingNeed cl then Inr False
          else if truthy (cget c ''vehicle_condition_fair_or_below'')
                  \<and> hasVehicleConditionIssues cl = Inl TypeError then Inl TypeError
          else if truthy (cget c ''vehicle_condition_fair_or_below'')
                  \<and> hasVehicleConditionIssues cl = Inr False then Inr False
          else if truthy (cget c ''min_days_since_last_order'')
                  \<and> days_lt sn (getDaysSinceLastOrder now cl)
                       (cget c ''min_days_since_last_order'') then Inr False
          else if truthy (cget c ''min_total_spent'')
                  \<and> js_lt sn (totalSpent cl) (cget c ''min_total_spent'') then Inr False
          else if truthy (cget c ''credit_score_improvement_needed'')
                  \<and> \<not> needsCreditImprovement sn cl then Inr False
          else if truthy (cget c ''legal_structure_complex'')
                  \<and> \<not> hasComplexLegalNeeds sn cl then Inr False
          else Inr True)"

text \<open>The \<^verbatim>\<open>catch\<close>: an exception is logged and the result is false.\<close>

definition evaluateConditions ::
  "strnum \<Rightarrow> real \<Rightarrow> conditions option \<Rightarrow> client \<Rightarrow> 'o \<Rightarrow> bool \<times> log_entry list" where
  "evaluateConditions sn now conds cl serviceOrder =
     (case evaluateConditions_try sn now conds cl serviceOrder of
        Inr b \<Rightarrow> (b, [])
      | Inl e \<Rightarrow> (False, [ErrorEvaluatingConditions]))"

subsection \<open>The predicates a condition document lists\<close>

text \<open>The keys that \<^verbatim>\<open>evaluateConditions\<close> reads.\<close>

definition known_keys :: "string list" where
  "known_keys =
     [''min_credit_score'', ''max_credit_score'', ''min_vehicle_value'', ''min_annual_income'',
      ''journey_stage'', ''financing_needed'', ''vehicle_purchase_intent'',
      ''business_financing_needed'', ''vehicle_condition_fair_or_below'',
      ''min_days_since_last_order'', ''min_total_spent'', ''credit_score_improvement_needed'',
      ''legal_structure_complex'']"

text \<open>
  The predicate named by key \<open>k\<close> with configured value \<open>v\<close>, read off the guard of the
  corresponding \<^verbatim>\<open>if (...) return false\<close>: it fails exactly when that guard is true (or, for
  the vehicle condition, when evaluating the guard throws). A key the engine does not know
  names no check.
\<close>

definition predicate_passes :: "strnum \<Rightarrow> real \<Rightarrow> client \<Rightarrow> string \<Rightarrow> jsval \<Rightarrow> bool" where
  "predicate_passes sn now cl k v =
     (if k = ''min_credit_score'' then \<not> (truthy v \<and> js_lt sn (credit_score cl) v)
      else if k = ''max_credit_score'' then \<not> (truthy v \<and> js_gt sn (credit_score cl) v)
      else if k = ''min_vehicle_value'' then \<not> (truthy v \<and> js_lt sn (vehicle_value cl) v)
      else if k = ''min_annual_income'' then \<not> (truthy v \<and> js_lt sn (annual_income cl) v)
      else if k = ''journey_stage'' then \<not> (truthy v \<and> journey_stage cl \<noteq> v)
      else if k = ''financing_needed'' then \<not> (truthy v \<and> \<not> hasFinancingNeed sn cl)
      else if k = ''vehicle_purchase_intent'' then \<not> (truthy v \<and> \<not> hasVehiclePurchaseIntent cl)
      else if k = ''business_financing_needed''
        then \<not> (truthy v \<and> \<not> hasBusinessFinancingNeed cl)
      else if k = ''vehicle_condition_fair_or_below''
        then \<not> (truthy v \<and> hasVehicleConditionIssues cl \<noteq> Inr True)
      else if k = ''min_days_since_last_order''
        then \<not> (truthy v \<and> days_lt sn (getDaysSinceLastOrder now cl) v)
      else if k = ''min_total_spent'' then \<not> (truthy v \<and> js_lt sn (totalSpent cl) v)
      else if k = ''credit_score_improvement_needed''
        then \<not> (truthy v \<and> \<not> needsCreditImprovement sn cl)
      else if k = ''legal_structure_complex'' then \<not> (truthy v \<and> \<not> hasComplexLegalNeeds sn cl)
      else True)"

text \<open>The condition document with key \<open>k\<close> deleted.\<close>

definition without :: "string \<Rightarrow> conditions \<Rightarrow> conditions" where
  "without k c = filter (\<lambda>p. fst p \<noteq> k) c"

section \<open>The persisted store\<close>

text \<open>
  The tables the engine reads and writes, each a list of rows in insertion order. Identifiers
  are generated by the store; \<open>next_id\<close> is the next one. Timestamps, order numbers and
  free-text notes are written and never read back by the engine, and are left out; so are the
  journey records, the notification queue and the cache entries that
  \<^verbatim>\<open>createTriggeredService\<close> writes. \<open>profiles\<close> is what the cascade engine's
  \<^verbatim>\<open>getClientProfile\<close> returns for a client id (\<open>None\<close> when there is no such client or
  the lookup failed: it catches its own errors), \<open>revenue_profiles\<close> the same for the
  revenue optimizer's.
\<close>

record service =
  svc_id :: nat
  svc_name :: string
  svc_base_price :: real
  svc_category :: string

record order_data =
  triggeredBy :: string
  cascadeTriggerId :: nat
  originalConversionRate :: real
  depth :: nat

record service_order =
  ord_id :: nat
  ord_client_id :: nat
  ord_service_id :: nat
  ord_status :: string
  ord_base_price :: real
  ord_final_price :: real
  ord_discount_amount :: real
  ord_priority :: int
  ord_service_data :: "order_data option"

record cascade_trigger =
  trg_id :: nat
  trg_client_id :: nat
  trg_entry_order_id :: nat
  trg_cascade_id :: nat
  trg_triggered_order_id :: "nat option"
  trg_converted :: bool
  trg_revenue_generated :: real

record store =
  services :: "service list"
  service_orders :: "service_order list"
  cascade_triggers :: "cascade_trigger list"
  profiles :: "nat \<Rightarrow> client option"
  revenue_profiles :: "nat \<Rightarrow> client option"
  next_id :: nat

datatype db_error = DbError

text \<open>Every store operation may fail; whether it does is an input (\<open>fails\<close>).\<close>

definition findById_service_orders :: "store \<Rightarrow> bool \<Rightarrow> nat \<Rightarrow> db_error + service_order option" where
  "findById_service_orders s fails i =
     (if fails then Inl DbError else Inr (find (\<lambda>ord. ord_id ord = i) (service_orders s)))"

definition findById_services :: "store \<Rightarrow> bool \<Rightarrow> nat \<Rightarrow> db_error + service option" where
  "findById_services s fails i =
     (if fails then Inl DbError else Inr (find (\<lambda>sv. svc_id sv = i) (services s)))"

text \<open>\<^verbatim>\<open>findOne('service_orders', {client_id, service_id})\<close>: the first matching row, of any
  status.\<close>

definition findOne_service_orders ::
  "store \<Rightarrow> bool \<Rightarrow> nat \<Rightarrow> nat \<Rightarrow> db_error + service_order option" where
  "findOne_service_orders s fails cid sid =
     (if fails then Inl DbError
      else Inr (find (\<lambda>ord. ord_client_id ord = cid \<and> ord_service_id ord = sid) (service_orders s)))"

definition create_cascade_trigger ::
  "store \<Rightarrow> bool \<Rightarrow> nat \<Rightarrow> nat \<Rightarrow> nat \<Rightarrow> db_error + store \<times> cascade_trigger" where
  "create_cascade_trigger s fails cid entry_order rid =
     (if fails then Inl DbError
      else let t = \<lparr>trg_id = next_id s, trg_client_id = cid, trg_entry_order_id = entry_order,
                     trg_cascade_id = rid, trg_triggered_order_id = None, trg_converted = False,
                     trg_revenue_generated = 0\<rparr>
           in Inr (s\<lparr>cascade_triggers := cascade_triggers s @ [t], next_id := Suc (next_id s)\<rparr>, t))"

definition update_cascade_trigger ::
  "store \<Rightarrow> bool \<Rightarrow> nat \<Rightarrow> (cascade_trigger \<Rightarrow> cascade_trigger) \<Rightarrow> db_error + store" where
  "update_cascade_trigger s fails i f =
     (if fails then Inl DbError
      else Inr (s\<lparr>cascade_triggers :=
                     map (\<lambda>t. if trg_id t = i then f t else t) (cascade_triggers s)\<rparr>))"

definition create_service_order ::
  "store \<Rightarrow> bool \<Rightarrow> (nat \<Rightarrow> service_order) \<Rightarrow> db_error + store \<times> service_order" where
  "create_service_order s fails row =
     (if fails then Inl DbError
      else let ord = row (next_id s)
           in Inr (s\<lparr>service_orders := service_orders s @ [ord], next_id := Suc (next_id s)\<rparr>, ord))"

section \<open>The cascade engine\<close>

record cascade_rule =
  rule_id :: nat
  entryServiceId :: nat
  triggeredServiceId :: nat
  conversionRate :: real
  priority :: int
  rule_conditions :: "conditions option"

text \<open>\<open>cascadeRules\<close> is the \<^verbatim>\<open>Map\<close> from entry service to its rules, in insertion order.\<close>

record engine =
  isInitialized :: bool
  cascadeRules :: "(nat \<times> cascade_rule list) list"
  conversionThreshold :: real
  maxCascadeDepth :: nat
  cascadeDelayMs :: nat

text \<open>The constructor. \<open>env_threshold\<close> is
  \<^verbatim>\<open>parseFloat(process.env.CASCADE_TRIGGER_THRESHOLD)\<close>, \<open>None\<close> when that is NaN.\<close>

definition new_CascadeEngine :: "real option \<Rightarrow> engine" where
  "new_CascadeEngine env_threshold =
     \<lparr>isInitialized = False, cascadeRules = [],
      conversionThreshold =
        (case env_threshold of None \<Rightarrow> 75 / 100 | Some t \<Rightarrow> if t \<noteq> 0 then t else 75 / 100),
      maxCascadeDepth = 3, cascadeDelayMs = 5000\<rparr>"

datatype app_error = CascadeServiceError | RevenueServiceError

subsection \<open>loadCascadeRules\<close>

text \<open>
  A row of the rule query (active rules, ordered by priority and conversion rate by the
  store). The \<^verbatim>\<open>conditions\<close> column, as the driver hands it over, is empty
  (\<open>ColNull\<close>), or a value that \<^verbatim>\<open>JSON.parse\<close> reads (\<open>ColJson\<close>), or one on which it
  throws (\<open>ColMalformed\<close>).
\<close>

datatype cond_column = ColNull | ColJson "conditions option" | ColMalformed

record rule_row =
  row_id :: nat
  row_entry_service_id :: nat
  row_triggered_service_id :: nat
  row_conversion_rate :: real
  row_priority :: int
  row_conditions :: cond_column

text \<open>\<^verbatim>\<open>if (!map.has(k)) map.set(k, [])\<close> and \<^verbatim>\<open>map.get(k).push(v)\<close>. The push
  always follows the check for the same key, so it finds the key; the first equation of
  \<open>map_push\<close> is never reached.\<close>

definition map_ensure :: "(nat \<times> 'a list) list \<Rightarrow> nat \<Rightarrow> (nat \<times> 'a list) list" where
  "map_ensure m k = (if k \<in> set (map fst m) then m else m @ [(k, [])])"

fun map_push :: "(nat \<times> 'a list) list \<Rightarrow> nat \<Rightarrow> 'a \<Rightarrow> (nat \<times> 'a list) list" where
  "map_push [] k v = []"
| "map_push ((k', vs) # m) k v =
     (if k' = k then (k', vs @ [v]) # m else (k', vs) # map_push m k v)"

definition rule_of_row :: "rule_row \<Rightarrow> conditions option \<Rightarrow> cascade_rule" where
  "rule_of_row r c =
     \<lparr>rule_id = row_id r, entryServiceId = row_entry_service_id r,
      triggeredServiceId = row_triggered_service_id r, conversionRate = row_conversion_rate r,
      priority = row_priority r, rule_conditions = c\<rparr>"

text \<open>The loop over the rows. It stops at the first row whose conditions do not parse, after
  the entry for that row's service has been made.\<close>

fun load_rows ::
  "(nat \<times> cascade_rule list) list \<Rightarrow> rule_row list \<Rightarrow> bool \<times> (nat \<times> cascade_rule list) list" where
  "load_rows m [] = (True, m)"
| "load_rows m (r # rs) =
     (let m1 = map_ensure m (row_entry_service_id r) in
      case row_conditions r of
        ColMalformed \<Rightarrow> (False, m1)
      | ColNull \<Rightarrow> load_rows (map_push m1 (row_entry_service_id r) (rule_of_row r (Some []))) rs
      | ColJson c \<Rightarrow> load_rows (map_push m1 (row_entry_service_id r) (rule_of_row r c)) rs)"

text \<open>The result is the engine, the error thrown to the caller if any
  (\<^verbatim>\<open>handleCascadeError\<close> rethrows every failure), and the log.\<close>

definition loadCascadeRules ::
  "engine \<Rightarrow> db_error + rule_row list \<Rightarrow> engine \<times> app_error option \<times> log_entry list" where
  "loadCascadeRules eng query_result =
     (case query_result of
        Inl e \<Rightarrow> (eng, Some CascadeServiceError, [])
      | Inr rows \<Rightarrow>
          (case load_rows [] rows of
             (False, m) \<Rightarrow> (eng\<lparr>cascadeRules := m\<rparr>, Some CascadeServiceError, [])
           | (True, m) \<Rightarrow>
               (eng\<lparr>cascadeRules := m\<rparr>, None, [LoadedRules (length rows) (length m)])))"

definition initialize ::
  "engine \<Rightarrow> db_error + rule_row list \<Rightarrow> engine \<times> app_error option \<times> log_entry list" where
  "initialize eng query_result =
     (case loadCascadeRules eng query_result of
        (eng', None, lg) \<Rightarrow> (eng'\<lparr>isInitialized := True\<rparr>, None, lg)
      | (eng', Some e, lg) \<Rightarrow> (eng', Some e, lg))"

subsection \<open>checkExistingService and calculateDynamicPricing\<close>

definition checkExistingService ::
  "store \<Rightarrow> bool \<Rightarrow> nat \<Rightarrow> nat \<Rightarrow> service_order option \<times> log_entry list" where
  "checkExistingService s fails clientId serviceId =
     (case findOne_service_orders s fails clientId serviceId of
        Inr existing \<Rightarrow> (existing, [])
      | Inl e \<Rightarrow> (None, [ErrorCheckingExistingService]))"

record dynamic_pricing =
  dp_basePrice :: real
  dp_finalPrice :: real
  dp_discountAmount :: real
  dp_discountPercentage :: real

text \<open>The engine's own pricing of a triggered order: the largest applicable discount, and
  never less than half the base price. Nothing in the \<^verbatim>\<open>try\<close> block can throw for a
  service row and a client profile, so the \<^verbatim>\<open>catch\<close> has no counterpart.\<close>

definition calculateDynamicPricing :: "strnum \<Rightarrow> service \<Rightarrow> client \<Rightarrow> dynamic_pricing" where
  "calculateDynamicPricing sn sv cl =
     (let basePrice = svc_base_price sv;
          d0 = 0;
          d1 = (if js_gt sn (totalSpent cl) (JNum 50000) then basePrice * (1 / 10) else d0);
          d2 = (if js_gt sn (credit_score cl) (JNum 750) then max d1 (basePrice * (5 / 100)) else d1);
          d3 = (if totalOrders cl = JNum 0 then max d2 (basePrice * (15 / 100)) else d2);
          d4 = (if js_gt sn (totalOrders cl) (JNum 5) then max d3 (basePrice * (8 / 100)) else d3);
          finalPrice = max (basePrice - d4) (basePrice * (5 / 10))
      in \<lparr>dp_basePrice = basePrice, dp_finalPrice = finalPrice, dp_discountAmount = d4,
          dp_discountPercentage = (if d4 > 0 then d4 / basePrice * 100 else 0)\<rparr>)"

subsection \<open>triggerCascade\<close>

text \<open>
  What the world decides while one rule is processed: whether the duplicate lookup fails,
  the value of \<^verbatim>\<open>Math.random()\<close>, and whether the insert of the trigger record fails. A
  whole call also depends on whether the lookup of the completed order fails, and the
  \<open>i\<close>-th rule of the loop is processed under \<open>rule_envs i\<close>.
\<close>

record rule_env =
  lookup_fails :: bool
  draw :: real
  create_fails :: bool

record cascade_env =
  order_lookup_fails :: bool
  rule_envs :: "nat \<Rightarrow> rule_env"

text \<open>A call of \<^verbatim>\<open>createTriggeredService\<close> that \<^verbatim>\<open>setTimeout\<close> has scheduled, with
  its arguments.\<close>

record task =
  task_rule :: cascade_rule
  task_client :: client
  task_trigger :: cascade_trigger
  task_depth :: nat

text \<open>The body of the loop over the rules, for one rule: the new store and the task it
  scheduled, if any. An exception inside is logged by the inner \<^verbatim>\<open>catch\<close> and the loop goes
  on; the only step that can throw is the insert of the trigger record.\<close>

definition processRule ::
  "engine \<Rightarrow> strnum \<Rightarrow> real \<Rightarrow> nat \<Rightarrow> nat \<Rightarrow> nat \<Rightarrow> client \<Rightarrow> service_order
     \<Rightarrow> store \<Rightarrow> rule_env \<Rightarrow> cascade_rule \<Rightarrow> store \<times> task list" where
  "processRule eng sn now serviceOrderId clientId dpth cl serviceOrder s e rule =
     (if conversionRate rule < conversionThreshold eng then (s, [])
      else case fst (checkExistingService s (lookup_fails e) clientId (triggeredServiceId rule)) of
        Some existingOrder \<Rightarrow> (s, [])
      | None \<Rightarrow>
          if \<not> fst (evaluateConditions sn now (rule_conditions rule) cl serviceOrder) then (s, [])
          else if \<not> (draw e < conversionRate rule) then (s, [])
          else (case create_cascade_trigger s (create_fails e) clientId serviceOrderId (rule_id rule) of
                  Inl err \<Rightarrow> (s, [])
                | Inr (s', cascadeTrigger) \<Rightarrow>
                    (s', [\<lparr>task_rule = rule, task_client = cl, task_trigger = cascadeTrigger,
                           task_depth = dpth\<rparr>])))"

fun processRules ::
  "engine \<Rightarrow> strnum \<Rightarrow> real \<Rightarrow> nat \<Rightarrow> nat \<Rightarrow> nat \<Rightarrow> client \<Rightarrow> service_order
     \<Rightarrow> (nat \<Rightarrow> rule_env) \<Rightarrow> store \<Rightarrow> nat \<Rightarrow> cascade_rule list \<Rightarrow> store \<times> task list" where
  "processRules eng sn now serviceOrderId clientId dpth cl serviceOrder envs s i [] = (s, [])"
| "processRules eng sn now serviceOrderId clientId dpth cl serviceOrder envs s i (rule # rules) =
     (case processRule eng sn now serviceOrderId clientId dpth cl serviceOrder s (envs i) rule of
        (s1, ts1) \<Rightarrow>
          (case processRules eng sn now serviceOrderId clientId dpth cl serviceOrder envs s1 (Suc i) rules of
             (s2, ts2) \<Rightarrow> (s2, ts1 @ ts2)))"

text \<open>
  \<^verbatim>\<open>triggerCascade(serviceOrderId, clientId, depth)\<close>. \<open>Inl\<close> is the error that
  \<^verbatim>\<open>handleCascadeError\<close> throws to the caller; otherwise the result is the store after the
  call and the tasks scheduled, in order.
\<close>

definition triggerCascade ::
  "engine \<Rightarrow> strnum \<Rightarrow> real \<Rightarrow> store \<Rightarrow> cascade_env \<Rightarrow> nat \<Rightarrow> nat \<Rightarrow> nat
     \<Rightarrow> app_error + store \<times> task list" where
  "triggerCascade eng sn now s env serviceOrderId clientId dpth =
     (if \<not> isInitialized eng then Inl CascadeServiceError
      else if dpth \<ge> maxCascadeDepth eng then Inr (s, [])
      else case findById_service_orders s (order_lookup_fails env) serviceOrderId of
        Inl e \<Rightarrow> Inl CascadeServiceError
      | Inr None \<Rightarrow> Inr (s, [])
      | Inr (Some serviceOrder) \<Rightarrow>
          if ord_status serviceOrder \<noteq> ''completed'' then Inr (s, [])
          else (case map_of (cascadeRules eng) (ord_service_id serviceOrder) of
                  None \<Rightarrow> Inr (s, [])
                | Some rules \<Rightarrow>
                    if rules = [] then Inr (s, [])
                    else (case profiles s clientId of
                            None \<Rightarrow> Inr (s, [])
                          | Some cl \<Rightarrow>
                              Inr (processRules eng sn now serviceOrderId clientId dpth cl
                                     serviceOrder (rule_envs env) s 0 rules))))"

subsection \<open>createTriggeredService\<close>

text \<open>The failures that can occur while a scheduled task runs: of the service lookup, of
  the insert of the order, of the update that marks the trigger converted, of the cache
  write at the end, and of the update in the \<^verbatim>\<open>catch\<close> block.\<close>

record task_env =
  service_lookup_fails :: bool
  order_create_fails :: bool
  trigger_update_fails :: bool
  cache_set_fails :: bool
  failure_update_fails :: bool

text \<open>The \<^verbatim>\<open>catch\<close> block: the trigger is written back as not converted. If that update
  fails too, the rejection is unhandled and the store stays as it is.\<close>

definition mark_failed :: "store \<Rightarrow> task_env \<Rightarrow> cascade_trigger \<Rightarrow> store" where
  "mark_failed s e cascadeTrigger =
     (case update_cascade_trigger s (failure_update_fails e) (trg_id cascadeTrigger)
             (\<lambda>t. t\<lparr>trg_converted := False, trg_revenue_generated := 0\<rparr>) of
        Inl err \<Rightarrow> s
      | Inr s' \<Rightarrow> s')"

definition createTriggeredService ::
  "strnum \<Rightarrow> store \<Rightarrow> task_env \<Rightarrow> cascade_rule \<Rightarrow> client \<Rightarrow> cascade_trigger \<Rightarrow> nat \<Rightarrow> store" where
  "createTriggeredService sn s e rule cl cascadeTrigger dpth =
     (case findById_services s (service_lookup_fails e) (triggeredServiceId rule) of
        Inl err \<Rightarrow> mark_failed s e cascadeTrigger
      | Inr None \<Rightarrow> s
      | Inr (Some sv) \<Rightarrow>
          (let pricing = calculateDynamicPricing sn sv cl in
           case create_service_order s (order_create_fails e)
                  (\<lambda>i. \<lparr>ord_id = i, ord_client_id = client_id cl, ord_service_id = svc_id sv,
                         ord_status = ''pending'', ord_base_price = svc_base_price sv,
                         ord_final_price = dp_finalPrice pricing,
                         ord_discount_amount = dp_discountAmount pricing,
                         ord_priority = priority rule,
                         ord_service_data =
                           Some \<lparr>triggeredBy = ''cascade'',
                                 cascadeTriggerId = trg_id cascadeTrigger,
                                 originalConversionRate = conversionRate rule,
                                 depth = dpth + 1\<rparr>\<rparr>) of
             Inl err \<Rightarrow> mark_failed s e cascadeTrigger
           | Inr (s1, serviceOrder) \<Rightarrow>
               (case update_cascade_trigger s1 (trigger_update_fails e) (trg_id cascadeTrigger)
                       (\<lambda>t. t\<lparr>trg_triggered_order_id := Some (ord_id serviceOrder),
                               trg_converted := True\<rparr>) of
                  Inl err \<Rightarrow> mark_failed s1 e cascadeTrigger
                | Inr s2 \<Rightarrow>
                    if cache_set_fails e then mark_failed s2 e cascadeTrigger else s2)))"

definition run_task :: "strnum \<Rightarrow> store \<Rightarrow> task_env \<Rightarrow> task \<Rightarrow> store" where
  "run_task sn s e t =
     createTriggeredService sn s e (task_rule t) (task_client t) (task_trigger t) (task_depth t)"

subsection \<open>The completion handler\<close>

text \<open>
  \<^verbatim>\<open>handleServiceCompletion(orderId, clientId, app)\<close> of the services API, the only caller
  of \<^verbatim>\<open>triggerCascade\<close>: it calls \<^verbatim>\<open>triggerCascade(orderId, clientId)\<close>, so the depth
  is the default 0, and it logs whatever is thrown. Revenue tracking precedes the cascade
  and writes to other tables; when it throws (\<open>tracking_fails\<close>) the cascade is not
  reached.
\<close>

definition handleServiceCompletion ::
  "engine \<Rightarrow> strnum \<Rightarrow> real \<Rightarrow> store \<Rightarrow> bool \<Rightarrow> cascade_env \<Rightarrow> nat \<Rightarrow> nat \<Rightarrow> store \<times> task list" where
  "handleServiceCompletion eng sn now s tracking_fails env orderId clientId =
     (if tracking_fails then (s, [])
      else case triggerCascade eng sn now s env orderId clientId 0 of
        Inl err \<Rightarrow> (s, [])
      | Inr r \<Rightarrow> r)"

text \<open>The orders a client holds for a service, and the converted triggers of a client for a
  service (a trigger names its service through the order it was converted into).\<close>

definition orders_for :: "store \<Rightarrow> nat \<Rightarrow> nat \<Rightarrow> service_order list" where
  "orders_for s cid sid =
     filter (\<lambda>ord. ord_client_id ord = cid \<and> ord_service_id ord = sid) (service_orders s)"


section \<open>The revenue optimizer\<close>

record pricing_rules =
  csm_excellent :: real
  csm_good :: real
  csm_fair :: real
  csm_poor :: real
  csm_bad :: real
  vvm_luxury :: real
  vvm_premium :: real
  vvm_standard :: real
  vvm_economy :: real
  ld_new :: real
  ld_returning :: real
  ld_loyal :: real
  ld_premium :: real
  vd_single :: real
  vd_bundle :: real
  vd_package :: real
  urgencyPremiums :: "(string \<times> real) list"

definition default_pricing_rules :: pricing_rules where
  "default_pricing_rules =
     \<lparr>csm_excellent = 1, csm_good = 105 / 100, csm_fair = 11 / 10, csm_poor = 115 / 100,
      csm_bad = 12 / 10,
      vvm_luxury = 115 / 100, vvm_premium = 11 / 10, vvm_standard = 1, vvm_economy = 95 / 100,
      ld_new = 85 / 100, ld_returning = 95 / 100, ld_loyal = 9 / 10, ld_premium = 85 / 100,
      vd_single = 1, vd_bundle = 92 / 100, vd_package = 85 / 100,
      urgencyPremiums = [(''standard'', 1), (''expedited'', 125 / 100), (''emergency'', 15 / 10)]\<rparr>"

definition default_seasonal_factors :: "(string \<times> (nat \<times> real) list) list" where
  "default_seasonal_factors =
     [(''financial'',
         [(1, 12 / 10), (2, 115 / 100), (3, 11 / 10), (4, 1), (5, 95 / 100), (6, 9 / 10),
          (7, 9 / 10), (8, 95 / 100), (9, 105 / 100), (10, 11 / 10), (11, 115 / 100),
          (12, 125 / 100)]),
      (''inspection'',
         [(1, 9 / 10), (2, 95 / 100), (3, 11 / 10), (4, 12 / 10), (5, 115 / 100), (6, 11 / 10),
          (7, 105 / 100), (8, 1), (9, 11 / 10), (10, 115 / 100), (11, 1), (12, 9 / 10)]),
      (''transport'',
         [(1, 9 / 10), (2, 95 / 100), (3, 11 / 10), (4, 115 / 100), (5, 12 / 10), (6, 125 / 100),
          (7, 12 / 10), (8, 115 / 100), (9, 11 / 10), (10, 1), (11, 95 / 100), (12, 9 / 10)])]"

definition default_market_conditions :: "(string \<times> real) list" where
  "default_market_conditions =
     [(''economy'', 1), (''automotive'', 105 / 100), (''credit'', 98 / 100)]"

record optimizer =
  opt_isInitialized :: bool
  dynamicPricingEnabled :: bool
  priceAdjustmentCap :: real
  pricingRules :: pricing_rules
  seasonalFactors :: "(string \<times> (nat \<times> real) list) list"
  marketConditions :: "(string \<times> real) list"

text \<open>
  The optimizer after the constructor and a successful \<^verbatim>\<open>initialize\<close>. \<open>dyn\<close> is
  whether \<^verbatim>\<open>DYNAMIC_PRICING_ENABLED\<close> is \<^verbatim>\<open>'true'\<close>; the pricing rules and the market
  conditions are the cached ones when the cache holds them and the defaults otherwise.
\<close>

definition initialized_optimizer ::
  "bool \<Rightarrow> pricing_rules option \<Rightarrow> (string \<times> real) list option \<Rightarrow> optimizer" where
  "initialized_optimizer dyn cached_rules cached_market =
     \<lparr>opt_isInitialized = True, dynamicPricingEnabled = dyn, priceAdjustmentCap = 3 / 10,
      pricingRules = (case cached_rules of None \<Rightarrow> default_pricing_rules | Some r \<Rightarrow> r),
      seasonalFactors = default_seasonal_factors,
      marketConditions = (case cached_market of None \<Rightarrow> default_market_conditions | Some m \<Rightarrow> m)\<rparr>"

text \<open>\<^verbatim>\<open>x || 1.0\<close> on a table entry: a missing entry and the number 0 both give 1.\<close>

definition or_one :: "real option \<Rightarrow> real" where
  "or_one x = (case x of None \<Rightarrow> 1 | Some v \<Rightarrow> if v \<noteq> 0 then v else 1)"

definition getCreditScoreFactor :: "optimizer \<Rightarrow> strnum \<Rightarrow> jsval \<Rightarrow> real" where
  "getCreditScoreFactor opt sn creditScore =
     (if \<not> truthy creditScore then 1
      else if js_ge sn creditScore (JNum 750) then csm_excellent (pricingRules opt)
      else if js_ge sn creditScore (JNum 650) then csm_good (pricingRules opt)
      else if js_ge sn creditScore (JNum 550) then csm_fair (pricingRules opt)
      else if js_ge sn creditScore (JNum 450) then csm_poor (pricingRules opt)
      else csm_bad (pricingRules opt))"

definition getVehicleValueFactor :: "optimizer \<Rightarrow> strnum \<Rightarrow> jsval \<Rightarrow> real" where
  "getVehicleValueFactor opt sn vehicleValue =
     (if \<not> truthy vehicleValue then 1
      else if js_ge sn vehicleValue (JNum 100000) then vvm_luxury (pricingRules opt)
      else if js_ge sn vehicleValue (JNum 50000) then vvm_premium (pricingRules opt)
      else if js_ge sn vehicleValue (JNum 25000) then vvm_standard (pricingRules opt)
      else vvm_economy (pricingRules opt))"

definition getLoyaltyFactor :: "optimizer \<Rightarrow> strnum \<Rightarrow> jsval \<Rightarrow> real" where
  "getLoyaltyFactor opt sn servicesCount =
     (if \<not> truthy servicesCount \<or> servicesCount = JNum 0 then ld_new (pricingRules opt)
      else if js_le sn servicesCount (JNum 3) then ld_returning (pricingRules opt)
      else if js_le sn servicesCount (JNum 10) then ld_loyal (pricingRules opt)
      else ld_premium (pricingRules opt))"

definition getVolumeFactor :: "optimizer \<Rightarrow> strnum \<Rightarrow> jsval \<Rightarrow> real" where
  "getVolumeFactor opt sn bundleSize =
     (if js_ge sn bundleSize (JNum 4) then vd_package (pricingRules opt)
      else if js_ge sn bundleSize (JNum 2) then vd_bundle (pricingRules opt)
      else vd_single (pricingRules opt))"

text \<open>\<open>month\<close> is \<^verbatim>\<open>new Date().getMonth() + 1\<close>.\<close>

definition getSeasonalFactor :: "optimizer \<Rightarrow> nat \<Rightarrow> string \<Rightarrow> real" where
  "getSeasonalFactor opt month serviceCategory =
     (case map_of (seasonalFactors opt) serviceCategory of
        None \<Rightarrow> 1
      | Some factors \<Rightarrow> or_one (map_of factors month))"

definition getMarketFactor :: "optimizer \<Rightarrow> string \<Rightarrow> real" where
  "getMarketFactor opt serviceCategory =
     (case map_of (marketConditions opt) serviceCategory of None \<Rightarrow> 1 | Some f \<Rightarrow> f)"

definition complexityFactors :: "(string \<times> real) list" where
  "complexityFactors =
     [(''financial'', 12 / 10), (''legal'', 13 / 10), (''inspection'', 8 / 10),
      (''transport'', 9 / 10), (''administrative'', 7 / 10), (''maintenance'', 11 / 10),
      (''parts'', 6 / 10), (''purchase'', 4 / 10), (''sales'', 3 / 10), (''business'', 14 / 10),
      (''support'', 1)]"

definition estimateServiceCost :: "strnum \<Rightarrow> service \<Rightarrow> client \<Rightarrow> real" where
  "estimateServiceCost sn sv cl =
     (let c0 = svc_base_price sv * (35 / 100);
          c1 = c0 * or_one (map_of complexityFactors (svc_category sv));
          c2 = (if js_lt sn (credit_score cl) (JNum 600) then c1 * (11 / 10) else c1);
          c3 = (if js_gt sn (vehicle_value cl) (JNum 100000) then c2 * (115 / 100) else c2)
      in round_cents c3)"

text \<open>The request options. \<open>urgency\<close> is \<open>None\<close> when the option is not given;
  \<open>bundleSize\<close> is \<open>JUndefined\<close> then.\<close>

record options =
  urgency :: "string option"
  bundleSize :: jsval

text \<open>The pricing result. An adjustment factor is recorded with its type tag and its
  multiplier. \<open>profitMargin\<close> and \<open>totalAdjustment\<close> are quotients and are \<open>None\<close> when
  the divisor is 0, where the source yields NaN or an infinity.\<close>

record pricing =
  basePrice :: real
  finalPrice :: real
  adjustmentFactors :: "(string \<times> real) list"
  estimatedCost :: real
  profitMargin :: "real option"
  discountAmount :: real
  premiumAmount :: real
  totalAdjustment :: "real option"

text \<open>The product of the factors when dynamic pricing is enabled: the price so far and
  the factors recorded, in the order of the source.\<close>

definition apply_factors ::
  "optimizer \<Rightarrow> strnum \<Rightarrow> nat \<Rightarrow> service \<Rightarrow> client \<Rightarrow> options \<Rightarrow> real \<times> (string \<times> real) list" where
  "apply_factors opt sn month sv cl opts =
     (let creditFactor = getCreditScoreFactor opt sn (credit_score cl);
          vehicleFactor = getVehicleValueFactor opt sn (vehicle_value cl);
          loyaltyFactor = getLoyaltyFactor opt sn (services_count cl);
          seasonalFactor = getSeasonalFactor opt month (svc_category sv);
          marketFactor = getMarketFactor opt (svc_category sv);
          p5 = svc_base_price sv * creditFactor * vehicleFactor * loyaltyFactor * seasonalFactor
                 * marketFactor;
          fs5 = [(''credit_score'', creditFactor), (''vehicle_value'', vehicleFactor),
                 (''loyalty'', loyaltyFactor), (''seasonal'', seasonalFactor),
                 (''market'', marketFactor)];
          (p6, fs6) =
            (case urgency opts of
               None \<Rightarrow> (p5, fs5)
             | Some u \<Rightarrow>
                 if u = [] then (p5, fs5)
                 else (let urgencyFactor = or_one (map_of (urgencyPremiums (pricingRules opt)) u)
                       in (p5 * urgencyFactor, fs5 @ [(''urgency'', urgencyFactor)])))
      in if truthy (bundleSize opts) \<and> js_gt sn (bundleSize opts) (JNum 1)
         then (let volumeFactor = getVolumeFactor opt sn (bundleSize opts)
               in (p6 * volumeFactor, fs6 @ [(''volume'', volumeFactor)]))
         else (p6, fs6))"

text \<open>The price before rounding: the product of the factors clamped to the adjustment cap.\<close>

definition capped_price ::
  "optimizer \<Rightarrow> strnum \<Rightarrow> nat \<Rightarrow> service \<Rightarrow> client \<Rightarrow> options \<Rightarrow> real" where
  "capped_price opt sn month sv cl opts =
     (let base = svc_base_price sv;
          price = (if dynamicPricingEnabled opt
                   then fst (apply_factors opt sn month sv cl opts) else base);
          maxPrice = base * (1 + priceAdjustmentCap opt);
          minPrice = base * (1 - priceAdjustmentCap opt)
      in min (max price minPrice) maxPrice)"

text \<open>
  \<^verbatim>\<open>calculateOptimalPrice(serviceId, clientId, options)\<close>. Whatever is thrown inside is
  caught and rethrown by \<^verbatim>\<open>handleRevenueError\<close> as the one service error (\<open>Inl\<close>).
\<close>

definition calculateOptimalPrice ::
  "optimizer \<Rightarrow> strnum \<Rightarrow> nat \<Rightarrow> store \<Rightarrow> bool \<Rightarrow> nat \<Rightarrow> nat \<Rightarrow> options \<Rightarrow> app_error + pricing" where
  "calculateOptimalPrice opt sn month s svc_fails serviceId clientId opts =
     (if \<not> opt_isInitialized opt then Inl RevenueServiceError
      else case findById_services s svc_fails serviceId of
        Inl e \<Rightarrow> Inl RevenueServiceError
      | Inr None \<Rightarrow> Inl RevenueServiceError
      | Inr (Some sv) \<Rightarrow>
          (case revenue_profiles s clientId of
             None \<Rightarrow> Inl RevenueServiceError
           | Some cl \<Rightarrow>
               (let base = svc_base_price sv;
                    final = capped_price opt sn month sv cl opts;
                    cost = estimateServiceCost sn sv cl
                in Inr \<lparr>basePrice = base,
                        finalPrice = round_cents final,
                        adjustmentFactors =
                          (if dynamicPricingEnabled opt
                           then snd (apply_factors opt sn month sv cl opts) else []),
                        estimatedCost = cost,
                        profitMargin = (if final = 0 then None else Some ((final - cost) / final)),
                        discountAmount = max 0 (base - final),
                        premiumAmount = max 0 (final - base),
                        totalAdjustment =
                          (if base = 0 then None else Some ((final - base) / base))\<rparr>)))"

section \<open>Running the engine\<close>

text \<open>The status update of the services API that completes an order, then the completion
  handler, then every task the handler scheduled, once its delay has passed.\<close>

definition complete_order :: "store \<Rightarrow> nat \<Rightarrow> store" where
  "complete_order s orderId =
     s\<lparr>service_orders :=
         map (\<lambda>ord. if ord_id ord = orderId then ord\<lparr>ord_status := ''completed''\<rparr> else ord)
           (service_orders s)\<rparr>"

fun run_tasks :: "strnum \<Rightarrow> store \<Rightarrow> task_env \<Rightarrow> task list \<Rightarrow> store" where
  "run_tasks sn s e [] = s"
| "run_tasks sn s e (t # ts) = run_tasks sn (run_task sn s e t) e ts"

definition complete_and_cascade ::
  "engine \<Rightarrow> strnum \<Rightarrow> store \<Rightarrow> cascade_env \<Rightarrow> task_env \<Rightarrow> nat \<Rightarrow> nat \<Rightarrow> store" where
  "complete_and_cascade eng sn s env tenv orderId clientId =
     (case handleServiceCompletion eng sn 0 (complete_order s orderId) False env orderId clientId of
        (s', ts) \<Rightarrow> run_tasks sn s' tenv ts)"

text \<open>The depth an order carries in its data; an order placed by the customer carries
  none and is at depth 0.\<close>

definition stored_depth :: "service_order \<Rightarrow> nat" where
  "stored_depth ord = (case ord_service_data ord of None \<Rightarrow> 0 | Some d \<Rightarrow> depth d)"

section \<open>Example configurations\<close>

text \<open>A string conversion under which no string reads as a number; the examples compare
  numbers only.\<close>

definition no_strnum :: strnum where
  "no_strnum = (\<lambda>s. None)"

text \<open>
  The scenario of the specification: service 1 cascades to service 2 with conversion rate
  0.84, priority 1 and the condition of a minimum credit score of 500; the customer has a
  credit score of 720 and no order for service 2; the activation threshold is 0.75 and the
  random draw is 0.10. Here the customer has completed two orders for service 1.
\<close>

definition ex_client :: client where
  "ex_client =
     \<lparr>client_id = 1, credit_score = JNum 720, vehicle_value = JNum 30000,
      annual_income = JNum 80000, journey_stage = JStr ''consideration'',
      client_type = JStr ''individual'', business_name = JNull, vehicles = Some [],
      lastOrderDate = None, totalSpent = JNum 2000, totalOrders = JNum 2,
      services_count = JNum 2\<rparr>"

definition ex_row :: rule_row where
  "ex_row =
     \<lparr>row_id = 40, row_entry_service_id = 1, row_triggered_service_id = 2,
      row_conversion_rate = 84 / 100, row_priority = 1,
      row_conditions = ColJson (Some [(''min_credit_score'', JNum 500)])\<rparr>"

definition ex_engine :: engine where
  "ex_engine = fst (initialize (new_CascadeEngine None) (Inr [ex_row]))"

definition ex_profiles :: "nat \<Rightarrow> client option" where
  "ex_profiles i = (if i = 1 then Some ex_client else None)"

definition ex_order :: "nat \<Rightarrow> nat \<Rightarrow> service_order" where
  "ex_order i sid =
     \<lparr>ord_id = i, ord_client_id = 1, ord_service_id = sid, ord_status = ''completed'',
      ord_base_price = 1000, ord_final_price = 1000, ord_discount_amount = 0, ord_priority = 1,
      ord_service_data = None\<rparr>"

definition ex_store :: store where
  "ex_store =
     \<lparr>services =
        [\<lparr>svc_id = 1, svc_name = ''Credit Analysis'', svc_base_price = 1000,
          svc_category = ''legal''\<rparr>,
         \<lparr>svc_id = 2, svc_name = ''Auto Loan'', svc_base_price = 1000,
          svc_category = ''legal''\<rparr>],
      service_orders = [ex_order 10 1, ex_order 11 1],
      cascade_triggers = [],
      profiles = ex_profiles, revenue_profiles = ex_profiles, next_id = 100\<rparr>"

definition ex_rule_env :: "nat \<Rightarrow> rule_env" where
  "ex_rule_env i = \<lparr>lookup_fails = False, draw = 1 / 10, create_fails = False\<rparr>"

definition ex_env :: cascade_env where
  "ex_env = \<lparr>order_lookup_fails = False, rule_envs = ex_rule_env\<rparr>"

definition ok_task_env :: task_env where
  "ok_task_env =
     \<lparr>service_lookup_fails = False, order_create_fails = False, trigger_update_fails = False,
      cache_set_fails = False, failure_update_fails = False\<rparr>"

text \<open>One completion, and the order it leads to.\<close>

definition ex_first :: "store \<times> task list" where
  "ex_first = handleServiceCompletion ex_engine no_strnum 0 ex_store False ex_env 10 1"





text \<open>The same customer with an order for service 2 already, and a duplicate lookup that
  fails.\<close>

definition held_store :: store where
  "held_store = ex_store\<lparr>service_orders := [ex_order 10 1, ex_order 12 2]\<rparr>"

definition failing_rule_env :: rule_env where
  "failing_rule_env = \<lparr>lookup_fails = True, draw = 1 / 10, create_fails = False\<rparr>"

text \<open>A chain of five services, each cascading to the next with no conditions, and a
  customer whose first order is for service 1.\<close>

definition chain_row :: "nat \<Rightarrow> rule_row" where
  "chain_row i =
     \<lparr>row_id = 40 + i, row_entry_service_id = i, row_triggered_service_id = Suc i,
      row_conversion_rate = 9 / 10, row_priority = 1, row_conditions = ColNull\<rparr>"

definition chain_engine :: engine where
  "chain_engine =
     fst (initialize (new_CascadeEngine None)
            (Inr [chain_row 1, chain_row 2, chain_row 3, chain_row 4]))"

definition chain_service :: "nat \<Rightarrow> service" where
  "chain_service i =
     \<lparr>svc_id = i, svc_name = ''Service'', svc_base_price = 1000, svc_category = ''legal''\<rparr>"

definition chain_store :: store where
  "chain_store =
     \<lparr>services = [chain_service 1, chain_service 2, chain_service 3, chain_service 4,
                  chain_service 5],
      service_orders = [(ex_order 10 1)\<lparr>ord_status := ''pending''\<rparr>],
      cascade_triggers = [],
      profiles = ex_profiles, revenue_profiles = ex_profiles, next_id = 100\<rparr>"

definition chain_1 :: store where
  "chain_1 = complete_and_cascade chain_engine no_strnum chain_store ex_env ok_task_env 10 1"

definition chain_2 :: store where
  "chain_2 = complete_and_cascade chain_engine no_strnum chain_1 ex_env ok_task_env 101 1"

definition chain_3 :: store where
  "chain_3 = complete_and_cascade chain_engine no_strnum chain_2 ex_env ok_task_env 103 1"

definition chain_4 :: store where
  "chain_4 = complete_and_cascade chain_engine no_strnum chain_3 ex_env ok_task_env 105 1"

text \<open>A pricing request: a service with base price 99.99 in a category without seasonal or
  market entry, a customer with a credit score of 400, a vehicle worth 150000 and two earlier
  services, dynamic pricing enabled, default rules, no options.\<close>

definition price_client :: client where
  "price_client =
     ex_client\<lparr>credit_score := JNum 400, vehicle_value := JNum 150000\<rparr>"

definition price_profiles :: "nat \<Rightarrow> client option" where
  "price_profiles i = (if i = 1 then Some price_client else None)"

definition price_store :: store where
  "price_store =
     \<lparr>services =
        [\<lparr>svc_id = 1, svc_name = ''Legal Review'', svc_base_price = 9999 / 100,
          svc_category = ''legal''\<rparr>],
      service_orders = [], cascade_triggers = [],
      profiles = price_profiles, revenue_profiles = price_profiles, next_id = 100\<rparr>"

definition price_optimizer :: optimizer where
  "price_optimizer = initialized_optimizer True None None"

definition no_options :: options where
  "no_options = \<lparr>urgency = None, bundleSize = JUndefined\<rparr>"

text \<open>A rule whose only condition key is one the engine does not know.\<close>

definition odd_row :: rule_row where
  "odd_row = ex_row\<lparr>row_conditions := ColJson (Some [(''preferred_color'', JStr ''red'')])\<rparr>"

text \<open>The number of rules an index holds.\<close>

definition rule_count :: "(nat \<times> cascade_rule list) list \<Rightarrow> nat" where
  "rule_count m = sum_list (map (\<lambda>p. length (snd p)) m)"

text \<open>An engine with a second rule, from service 1 to service 3, and a customer who holds
  an order for service 2 and none for service 3.\<close>

definition two_rule_engine :: engine where
  "two_rule_engine =
     fst (initialize (new_CascadeEngine None)
            (Inr [ex_row, ex_row\<lparr>row_id := 41, row_triggered_service_id := 3\<rparr>]))"

definition held_cascade :: "store \<times> task list" where
  "held_cascade =
     handleServiceCompletion two_rule_engine no_strnum 0 held_store False ex_env 10 1"

definition ex_rule :: cascade_rule where
  "ex_rule = rule_of_row ex_row (Some [(''min_credit_score'', JNum 500)])"

text \<open>The customer holds an order for service 2, the duplicate lookup fails, and the task
  that the rule then schedules runs.\<close>

definition failed_lookup_step :: "store \<times> task list" where
  "failed_lookup_step =
     processRule ex_engine no_strnum 0 10 1 0 ex_client (ex_order 10 1) held_store
       failing_rule_env ex_rule"

definition failed_lookup_final :: store where
  "failed_lookup_final =
     run_tasks no_strnum (fst failed_lookup_step) ok_task_env (snd failed_lookup_step)"

section \<open>Condition evaluation\<close>

lemma cget_without: "cget (without k c) k' = (if k' = k then JUndefined else cget c k')"
  by (induction c) (auto simp: cget_def without_def)

lemma cget_absent: "k \<notin> set (map fst c) \<Longrightarrow> cget c k = JUndefined"
  by (induction c) (auto simp: cget_def)

lemma passes_falsy: "\<not> truthy v \<Longrightarrow> predicate_passes sn now cl k v"
  by (simp add: predicate_passes_def)

lemma passes_unknown: "k \<notin> set known_keys \<Longrightarrow> predicate_passes sn now cl k v"
  by (simp add: predicate_passes_def known_keys_def)

lemma js_gt_undefined: "js_gt sn JUndefined v = False"
  by (cases v) (simp_all add: js_gt_def split: option.splits)

text \<open>The result of the chain of early returns is the conjunction of the thirteen checks,
  whatever the document holds.\<close>

lemma eval_fst:
  "fst (evaluateConditions sn now (Some c) cl ord) =
     (\<forall>k\<in>set known_keys. predicate_passes sn now cl k (cget c k))"
proof (cases "c = []")
  case True
  then show ?thesis
    by (simp add: evaluateConditions_def evaluateConditions_try_def passes_falsy cget_def)
next
  case False
  then show ?thesis
    by (simp add: evaluateConditions_def evaluateConditions_try_def known_keys_def
        predicate_passes_def hasVehicleConditionIssues_def split: option.splits)
qed

text \<open>The error is logged exactly when the vehicle check is reached and the profile has no
  vehicles array.\<close>

lemma eval_snd:
  "snd (evaluateConditions sn now (Some c) cl ord) =
     (if (\<forall>k\<in>set (take 8 known_keys). predicate_passes sn now cl k (cget c k))
         \<and> truthy (cget c ''vehicle_condition_fair_or_below'') \<and> vehicles cl = None
      then [ErrorEvaluatingConditions] else [])"
proof (cases "c = []")
  case True
  then show ?thesis
    by (simp add: evaluateConditions_def evaluateConditions_try_def cget_def)
next
  case False
  then show ?thesis
    by (simp add: evaluateConditions_def evaluateConditions_try_def known_keys_def
        predicate_passes_def hasVehicleConditionIssues_def split: option.splits)
qed

lemma passes_without:
  assumes "predicate_passes sn now cl k (cget c k)"
  shows "predicate_passes sn now cl k' (cget (without k c) k') =
         predicate_passes sn now cl k' (cget c k')"
  using assms by (simp add: cget_without passes_falsy)

lemma truthy_without:
  assumes "predicate_passes sn now cl k (cget c k)" and "vehicles cl = None"
  shows "truthy (cget (without k c) ''vehicle_condition_fair_or_below'') =
         truthy (cget c ''vehicle_condition_fair_or_below'')"
  using assms
  by (auto simp: cget_without predicate_passes_def hasVehicleConditionIssues_def)

text \<open>A key whose check passes can be deleted from the document: result and log stay the
  same.\<close>

lemma evaluate_without:
  assumes "predicate_passes sn now cl k (cget c k)"
  shows "evaluateConditions sn now (Some c) cl ord =
         evaluateConditions sn now (Some (without k c)) cl ord"
proof (rule prod_eqI)
  show "fst (evaluateConditions sn now (Some c) cl ord) =
        fst (evaluateConditions sn now (Some (without k c)) cl ord)"
    by (simp only: eval_fst passes_without [OF assms])
  show "snd (evaluateConditions sn now (Some c) cl ord) =
        snd (evaluateConditions sn now (Some (without k c)) cl ord)"
  proof (cases "vehicles cl = None")
    case True
    show ?thesis
      by (simp only: eval_snd passes_without [OF assms] truthy_without [OF assms True])
  next
    case False
    then show ?thesis by (simp only: eval_snd) simp
  qed
qed

lemma listed_keys_suffice:
  "(\<forall>k\<in>set known_keys. predicate_passes sn now cl k (cget c k)) =
   (\<forall>k\<in>set (map fst c). predicate_passes sn now cl k (cget c k))"
proof
  assume a: "\<forall>k\<in>set known_keys. predicate_passes sn now cl k (cget c k)"
  show "\<forall>k\<in>set (map fst c). predicate_passes sn now cl k (cget c k)"
  proof
    fix k assume "k \<in> set (map fst c)"
    show "predicate_passes sn now cl k (cget c k)"
      using a passes_unknown [of k] by (cases "k \<in> set known_keys") auto
  qed
next
  assume b: "\<forall>k\<in>set (map fst c). predicate_passes sn now cl k (cget c k)"
  show "\<forall>k\<in>set known_keys. predicate_passes sn now cl k (cget c k)"
  proof
    fix k assume "k \<in> set known_keys"
    show "predicate_passes sn now cl k (cget c k)"
    proof (cases "k \<in> set (map fst c)")
      case True
      with b show ?thesis by blast
    next
      case False
      then show ?thesis by (simp add: cget_absent passes_falsy)
    qed
  qed
qed

text \<open>
  C7. For every customer snapshot and entry order, \<open>evaluateConditions\<close> returns true when
  the condition set is empty (or null), and for a non-empty condition set it returns the
  conjunction of the predicates of all the keys the set lists: one failing predicate makes
  the result false.
\<close>

theorem evaluateConditions_conjunction:
  "fst (evaluateConditions sn now conds cl ord) =
     (case conds of
        None \<Rightarrow> True
      | Some c \<Rightarrow> c = [] \<or> (\<forall>k\<in>set (map fst c). predicate_passes sn now cl k (cget c k)))"
proof (cases conds)
  case None
  then show ?thesis by (simp add: evaluateConditions_def evaluateConditions_try_def)
next
  case (Some c)
  show ?thesis
  proof (cases "c = []")
    case True
    with Some show ?thesis by (simp add: evaluateConditions_def evaluateConditions_try_def)
  next
    case False
    with Some show ?thesis by (simp add: eval_fst listed_keys_suffice)
  qed
qed

theorem evaluateConditions_conjunction_witness:
  "fst (evaluateConditions no_strnum 0
          (Some [(''min_credit_score'', JNum 500), (''journey_stage'', JStr ''consideration'')])
          ex_client ())
   \<and> \<not> fst (evaluateConditions no_strnum 0
          (Some [(''min_credit_score'', JNum 500), (''max_credit_score'', JNum 700)])
          ex_client ())
   \<and> \<not> predicate_passes no_strnum 0 ex_client ''max_credit_score'' (JNum 700)"
  using evaluateConditions_conjunction [of no_strnum 0
          "Some [(''min_credit_score'', JNum 500), (''journey_stage'', JStr ''consideration'')]"
          ex_client "()"]
        evaluateConditions_conjunction [of no_strnum 0
          "Some [(''min_credit_score'', JNum 500), (''max_credit_score'', JNum 700)]"
          ex_client "()"]
  by (simp add: predicate_passes_def cget_def ex_client_def no_strnum_def js_gt_def)

text \<open>The days since the last order are not compared through the field itself: a client
  without a last order date counts as 999 days away, and passes a minimum up to 999.\<close>

lemma missing_last_order_date:
  "lastOrderDate cl = None \<Longrightarrow>
   predicate_passes sn now cl ''min_days_since_last_order'' (JNum n) = (n \<le> 999)"
  by (auto simp: predicate_passes_def getDaysSinceLastOrder_def days_lt_def)

text \<open>
  C10. A condition whose configured value is falsy (0, false, null, also the empty string or
  a missing value) is treated as absent: the result and the log of \<open>evaluateConditions\<close>
  are those for the condition set without that key, and the predicate of the key passes. A
  client whose credit score, vehicle value, annual income or total spent is missing
  (undefined) is evaluated as if the rule had no minimum or maximum threshold on that field.
\<close>

theorem falsy_condition_and_missing_field_pass:
  "(\<not> truthy (cget c k) \<longrightarrow>
      predicate_passes sn now cl k (cget c k)
      \<and> evaluateConditions sn now (Some c) cl ord =
        evaluateConditions sn now (Some (without k c)) cl ord)
   \<and> (credit_score cl = JUndefined \<longrightarrow>
        evaluateConditions sn now (Some c) cl ord =
        evaluateConditions sn now
          (Some (without ''min_credit_score'' (without ''max_credit_score'' c))) cl ord)
   \<and> (vehicle_value cl = JUndefined \<longrightarrow>
        evaluateConditions sn now (Some c) cl ord =
        evaluateConditions sn now (Some (without ''min_vehicle_value'' c)) cl ord)
   \<and> (annual_income cl = JUndefined \<longrightarrow>
        evaluateConditions sn now (Some c) cl ord =
        evaluateConditions sn now (Some (without ''min_annual_income'' c)) cl ord)
   \<and> (totalSpent cl = JUndefined \<longrightarrow>
        evaluateConditions sn now (Some c) cl ord =
        evaluateConditions sn now (Some (without ''min_total_spent'' c)) cl ord)"
proof (intro conjI impI)
  assume "\<not> truthy (cget c k)"
  then show p: "predicate_passes sn now cl k (cget c k)" by (rule passes_falsy)
  show "evaluateConditions sn now (Some c) cl ord =
        evaluateConditions sn now (Some (without k c)) cl ord"
    using p by (rule evaluate_without)
next
  assume u: "credit_score cl = JUndefined"
  have "predicate_passes sn now cl ''max_credit_score'' (cget c ''max_credit_score'')"
    using u by (simp add: predicate_passes_def js_gt_undefined)
  then have 1: "evaluateConditions sn now (Some c) cl ord =
      evaluateConditions sn now (Some (without ''max_credit_score'' c)) cl ord"
    by (rule evaluate_without)
  have "predicate_passes sn now cl ''min_credit_score''
          (cget (without ''max_credit_score'' c) ''min_credit_score'')"
    using u by (simp add: predicate_passes_def)
  then have "evaluateConditions sn now (Some (without ''max_credit_score'' c)) cl ord =
      evaluateConditions sn now
        (Some (without ''min_credit_score'' (without ''max_credit_score'' c))) cl ord"
    by (rule evaluate_without)
  with 1 show "evaluateConditions sn now (Some c) cl ord =
      evaluateConditions sn now
        (Some (without ''min_credit_score'' (without ''max_credit_score'' c))) cl ord"
    by simp
next
  assume u: "vehicle_value cl = JUndefined"
  have "predicate_passes sn now cl ''min_vehicle_value'' (cget c ''min_vehicle_value'')"
    using u by (simp add: predicate_passes_def)
  then show "evaluateConditions sn now (Some c) cl ord =
      evaluateConditions sn now (Some (without ''min_vehicle_value'' c)) cl ord"
    by (rule evaluate_without)
next
  assume u: "annual_income cl = JUndefined"
  have "predicate_passes sn now cl ''min_annual_income'' (cget c ''min_annual_income'')"
    using u by (simp add: predicate_passes_def)
  then show "evaluateConditions sn now (Some c) cl ord =
      evaluateConditions sn now (Some (without ''min_annual_income'' c)) cl ord"
    by (rule evaluate_without)
next
  assume u: "totalSpent cl = JUndefined"
  have "predicate_passes sn now cl ''min_total_spent'' (cget c ''min_total_spent'')"
    using u by (simp add: predicate_passes_def)
  then show "evaluateConditions sn now (Some c) cl ord =
      evaluateConditions sn now (Some (without ''min_total_spent'' c)) cl ord"
    by (rule evaluate_without)
qed

theorem falsy_condition_and_missing_field_pass_witness:
  "\<not> truthy (cget [(''max_credit_score'', JNum 0), (''min_annual_income'', JNum 90000)]
                ''max_credit_score'')
   \<and> evaluateConditions no_strnum 0
        (Some [(''max_credit_score'', JNum 0), (''min_annual_income'', JNum 90000)])
        (ex_client\<lparr>annual_income := JUndefined\<rparr>) () = (True, [])
   \<and> evaluateConditions no_strnum 0
        (Some [(''max_credit_score'', JNum 0), (''min_annual_income'', JNum 90000)])
        ex_client () = (False, [])"
  using falsy_condition_and_missing_field_pass
          [of "[(''max_credit_score'', JNum 0), (''min_annual_income'', JNum 90000)]"
              "''max_credit_score''" no_strnum 0 "ex_client\<lparr>annual_income := JUndefined\<rparr>" "()"]
  by (simp add: cget_def without_def evaluateConditions_def evaluateConditions_try_def
      ex_client_def no_strnum_def js_gt_def)

section \<open>Loading the rules\<close>

lemma rule_count_ensure: "rule_count (map_ensure m k) = rule_count m"
  by (simp add: rule_count_def map_ensure_def)

lemma rule_count_push:
  "k \<in> fst ` set m \<Longrightarrow> rule_count (map_push m k v) = Suc (rule_count m)"
  by (induction m) (force simp: rule_count_def)+

lemma ensure_has: "k \<in> fst ` set (map_ensure m k)"
  by (simp add: map_ensure_def)

lemma load_rows_keeps_all:
  "\<forall>r\<in>set rows. row_conditions r \<noteq> ColMalformed \<Longrightarrow>
   fst (load_rows m rows) \<and> rule_count (snd (load_rows m rows)) = rule_count m + length rows"
proof (induction rows arbitrary: m)
  case Nil
  then show ?case by simp
next
  case (Cons r rows)
  then show ?case
    by (cases "row_conditions r")
       (simp_all add: Let_def rule_count_push ensure_has rule_count_ensure)
qed

text \<open>
  C8, as the code has it. A rule whose condition set holds a key the engine does not know is
  neither rejected at load time nor logged: \<open>loadCascadeRules\<close> fails on no row whose
  conditions parse and keeps every row as a rule, and \<open>evaluateConditions\<close> gives the
  result and the log of the condition set without that key. The unknown key is ignored
  silently.
\<close>

theorem unknown_key_silently_ignored:
  "(k \<notin> set known_keys \<longrightarrow>
      evaluateConditions sn now (Some c) cl ord =
      evaluateConditions sn now (Some (without k c)) cl ord)
   \<and> ((\<forall>r\<in>set rows. row_conditions r \<noteq> ColMalformed) \<longrightarrow>
        fst (snd (loadCascadeRules eng (Inr rows))) = None
        \<and> rule_count (cascadeRules (fst (loadCascadeRules eng (Inr rows)))) = length rows)"
proof (intro conjI impI)
  assume "k \<notin> set known_keys"
  then have "predicate_passes sn now cl k (cget c k)" by (rule passes_unknown)
  then show "evaluateConditions sn now (Some c) cl ord =
      evaluateConditions sn now (Some (without k c)) cl ord"
    by (rule evaluate_without)
next
  assume a: "\<forall>r\<in>set rows. row_conditions r \<noteq> ColMalformed"
  from load_rows_keeps_all [OF a, of "[]"]
  show "fst (snd (loadCascadeRules eng (Inr rows))) = None"
    by (cases "load_rows [] rows") (simp add: loadCascadeRules_def)
  from load_rows_keeps_all [OF a, of "[]"]
  show "rule_count (cascadeRules (fst (loadCascadeRules eng (Inr rows)))) = length rows"
    by (cases "load_rows [] rows") (simp add: loadCascadeRules_def rule_count_def)
qed

theorem unknown_key_silently_ignored_witness:
  "''preferred_color'' \<notin> set known_keys
   \<and> row_conditions odd_row \<noteq> ColMalformed
   \<and> evaluateConditions no_strnum 0
        (Some [(''preferred_color'', JStr ''red''), (''min_credit_score'', JNum 800)])
        ex_client () = (False, [])
   \<and> evaluateConditions no_strnum 0 (Some [(''min_credit_score'', JNum 800)])
        ex_client () = (False, [])
   \<and> rule_count (cascadeRules (fst (loadCascadeRules (new_CascadeEngine None) (Inr [odd_row]))))
       = 1"
  using unknown_key_silently_ignored
          [of "''preferred_color''" no_strnum 0
              "[(''preferred_color'', JStr ''red''), (''min_credit_score'', JNum 800)]"
              ex_client "()" "[odd_row]" "new_CascadeEngine None"]
  by (simp add: known_keys_def odd_row_def ex_row_def without_def evaluateConditions_def
      evaluateConditions_try_def cget_def ex_client_def no_strnum_def)

text \<open>
  C8, as the claim states it, fails: the rule with the single unknown key
  \<^verbatim>\<open>preferred_color\<close> is loaded like any other, with the one log line every load writes,
  and evaluating its conditions returns true and logs nothing.
\<close>

theorem unknown_key_counterexample:
  "loadCascadeRules (new_CascadeEngine None) (Inr [odd_row]) =
     ((new_CascadeEngine None)
        \<lparr>cascadeRules :=
           [(1, [rule_of_row odd_row (Some [(''preferred_color'', JStr ''red'')])])]\<rparr>,
      None, [LoadedRules 1 1])
   \<and> evaluateConditions no_strnum 0 (Some [(''preferred_color'', JStr ''red'')]) ex_client ()
       = (True, [])"
  by (simp add: loadCascadeRules_def odd_row_def ex_row_def map_ensure_def rule_of_row_def
      evaluateConditions_def evaluateConditions_try_def cget_def)

section \<open>The cascade\<close>

lemmas store_ops =
  findById_service_orders_def findById_services_def findOne_service_orders_def
  create_cascade_trigger_def update_cascade_trigger_def create_service_order_def

lemmas cascade_ops =
  triggerCascade_def processRule_def checkExistingService_def evaluateConditions_def
  evaluateConditions_try_def cget_def handleServiceCompletion_def createTriggeredService_def
  mark_failed_def run_task_def calculateDynamicPricing_def js_gt_def Let_def

lemmas example_defs =
  ex_engine_def initialize_def loadCascadeRules_def new_CascadeEngine_def map_ensure_def
  rule_of_row_def ex_row_def ex_store_def ex_order_def ex_profiles_def ex_client_def
  ex_env_def ex_rule_env_def ok_task_env_def no_strnum_def

text \<open>What one pass of the loop body does: nothing, or one trigger record and one task, and
  then only when no check stopped the rule.\<close>

lemma processRule_result:
  assumes "processRule eng sn now oid cid d cl so s e rule = (s', ts)"
  shows "(s' = s \<and> ts = []) \<or>
         (conversionThreshold eng \<le> conversionRate rule
          \<and> (lookup_fails e \<or> orders_for s cid (triggeredServiceId rule) = [])
          \<and> fst (evaluateConditions sn now (rule_conditions rule) cl so)
          \<and> draw e < conversionRate rule \<and> \<not> create_fails e
          \<and> (\<exists>trg. ts = [\<lparr>task_rule = rule, task_client = cl, task_trigger = trg, task_depth = d\<rparr>]
                \<and> trg_cascade_id trg = rule_id rule \<and> trg_client_id trg = cid
                \<and> trg_entry_order_id trg = oid \<and> \<not> trg_converted trg
                \<and> s' = s\<lparr>cascade_triggers := cascade_triggers s @ [trg],
                          next_id := Suc (next_id s)\<rparr>))"
  using assms
  by (auto simp: processRule_def checkExistingService_def findOne_service_orders_def
      create_cascade_trigger_def orders_for_def find_None_iff filter_empty_conv Let_def
      split: if_splits option.splits sum.splits)

lemma processRules_result:
  assumes "processRules eng sn now oid cid d cl so envs s i rules = (s', ts)"
  shows "service_orders s' = service_orders s
         \<and> cascade_triggers s' = cascade_triggers s @ map task_trigger ts
         \<and> (\<forall>t\<in>set ts. task_rule t \<in> set rules
               \<and> conversionThreshold eng \<le> conversionRate (task_rule t)
               \<and> task_depth t = d
               \<and> trg_cascade_id (task_trigger t) = rule_id (task_rule t)
               \<and> trg_client_id (task_trigger t) = cid
               \<and> \<not> trg_converted (task_trigger t)
               \<and> ((\<exists>j. lookup_fails (envs j))
                    \<or> orders_for s cid (triggeredServiceId (task_rule t)) = []))"
  using assms
proof (induction rules arbitrary: s i s' ts)
  case Nil
  then show ?case by simp
next
  case (Cons rule rules)
  obtain s1 ts1 where p1: "processRule eng sn now oid cid d cl so s (envs i) rule = (s1, ts1)"
    by (cases "processRule eng sn now oid cid d cl so s (envs i) rule")
  obtain s2 ts2
    where p2: "processRules eng sn now oid cid d cl so envs s1 (Suc i) rules = (s2, ts2)"
    by (cases "processRules eng sn now oid cid d cl so envs s1 (Suc i) rules")
  from Cons.prems p1 p2 have eq: "s' = s2" "ts = ts1 @ ts2" by simp_all
  note ih = Cons.IH [OF p2]
  from processRule_result [OF p1] show ?case
  proof
    assume "s1 = s \<and> ts1 = []"
    with ih eq show ?thesis by auto
  next
    assume a: "conversionThreshold eng \<le> conversionRate rule
          \<and> (lookup_fails (envs i) \<or> orders_for s cid (triggeredServiceId rule) = [])
          \<and> fst (evaluateConditions sn now (rule_conditions rule) cl so)
          \<and> draw (envs i) < conversionRate rule \<and> \<not> create_fails (envs i)
          \<and> (\<exists>trg. ts1 = [\<lparr>task_rule = rule, task_client = cl, task_trigger = trg,
                             task_depth = d\<rparr>]
                \<and> trg_cascade_id trg = rule_id rule \<and> trg_client_id trg = cid
                \<and> trg_entry_order_id trg = oid \<and> \<not> trg_converted trg
                \<and> s1 = s\<lparr>cascade_triggers := cascade_triggers s @ [trg],
                          next_id := Suc (next_id s)\<rparr>)"
    then obtain trg
      where t: "ts1 = [\<lparr>task_rule = rule, task_client = cl, task_trigger = trg, task_depth = d\<rparr>]"
        "trg_cascade_id trg = rule_id rule" "trg_client_id trg = cid" "\<not> trg_converted trg"
        "s1 = s\<lparr>cascade_triggers := cascade_triggers s @ [trg], next_id := Suc (next_id s)\<rparr>"
      by blast
    have o: "orders_for s1 = orders_for s"
      using t(5) by (simp add: orders_for_def fun_eq_iff)
    from ih eq t a o show ?thesis by auto
  qed
qed

text \<open>The same for a whole call of \<open>triggerCascade\<close> that does not throw.\<close>

lemma triggerCascade_result:
  assumes "triggerCascade eng sn now s env oid cid d = Inr (s', ts)"
  shows "service_orders s' = service_orders s
         \<and> cascade_triggers s' = cascade_triggers s @ map task_trigger ts
         \<and> (\<forall>t\<in>set ts. conversionThreshold eng \<le> conversionRate (task_rule t)
               \<and> task_depth t = d \<and> d < maxCascadeDepth eng
               \<and> trg_cascade_id (task_trigger t) = rule_id (task_rule t)
               \<and> trg_client_id (task_trigger t) = cid
               \<and> \<not> trg_converted (task_trigger t)
               \<and> ((\<exists>j. lookup_fails (rule_envs env j))
                    \<or> orders_for s cid (triggeredServiceId (task_rule t)) = []))"
proof (cases "ts = [] \<and> s' = s")
  case True
  then show ?thesis by simp
next
  case False
  with assms obtain cl so rules
    where p: "processRules eng sn now oid cid d cl so (rule_envs env) s 0 rules = (s', ts)"
      and d: "d < maxCascadeDepth eng"
    by (auto simp: triggerCascade_def split: if_splits sum.splits option.splits)
  from processRules_result [OF p] d show ?thesis by blast
qed

text \<open>
  C4. A rule whose conversion rate is below the activation threshold is never triggered: the
  loop body leaves the store as it is and schedules nothing for it, whatever its conditions,
  the customer and the random draw; and every trigger record that a call of
  \<open>triggerCascade\<close> creates belongs to a scheduled task whose rule has a conversion rate at
  or above the threshold.
\<close>

theorem below_threshold_never_triggers:
  "(conversionRate rule < conversionThreshold eng \<longrightarrow>
      processRule eng sn now oid cid d cl so s e rule = (s, []))
   \<and> (triggerCascade eng sn now s env oid cid d = Inr (s', ts) \<longrightarrow>
        cascade_triggers s' = cascade_triggers s @ map task_trigger ts
        \<and> (\<forall>t\<in>set ts. trg_cascade_id (task_trigger t) = rule_id (task_rule t)
              \<and> \<not> conversionRate (task_rule t) < conversionThreshold eng))"
proof (intro conjI impI)
  assume "conversionRate rule < conversionThreshold eng"
  then show "processRule eng sn now oid cid d cl so s e rule = (s, [])"
    by (simp add: processRule_def)
next
  assume a: "triggerCascade eng sn now s env oid cid d = Inr (s', ts)"
  from triggerCascade_result [OF a]
  show "cascade_triggers s' = cascade_triggers s @ map task_trigger ts" by blast
  from triggerCascade_result [OF a]
  show "\<forall>t\<in>set ts. trg_cascade_id (task_trigger t) = rule_id (task_rule t)
          \<and> \<not> conversionRate (task_rule t) < conversionThreshold eng"
    by (auto simp: not_less)
qed

theorem below_threshold_never_triggers_witness:
  "conversionRate (rule_of_row (ex_row\<lparr>row_conversion_rate := 6 / 10\<rparr>) (Some []))
     < conversionThreshold ex_engine
   \<and> processRule ex_engine no_strnum 0 10 1 0 ex_client (ex_order 10 1) ex_store
       (ex_rule_env 0) (rule_of_row (ex_row\<lparr>row_conversion_rate := 6 / 10\<rparr>) (Some []))
     = (ex_store, [])
   \<and> triggerCascade ex_engine no_strnum 0 ex_store ex_env 10 1 0 = Inr ex_first
   \<and> map (conversionRate \<circ> task_rule) (snd ex_first) = [84 / 100]
   \<and> map trg_cascade_id (cascade_triggers (fst ex_first)) = [40]"
  using below_threshold_never_triggers
          [where rule = "rule_of_row (ex_row\<lparr>row_conversion_rate := 6 / 10\<rparr>) (Some [])"
             and eng = ex_engine and sn = no_strnum and now = 0 and oid = 10 and cid = 1
             and d = 0 and cl = ex_client and so = "ex_order 10 1" and s = ex_store
             and e = "ex_rule_env 0" and env = ex_env and s' = "fst ex_first"
             and ts = "snd ex_first"]
  by (simp add: ex_first_def example_defs cascade_ops store_ops)

lemmas more_example_defs =
  two_rule_engine_def held_store_def failing_rule_env_def held_cascade_def ex_rule_def
  failed_lookup_step_def failed_lookup_final_def




text \<open>
  C9. When the store lookup inside \<open>checkExistingService\<close> throws, the error is caught and
  logged and null is returned; the loop body then does exactly what it does for a customer
  with no order at all, so a rule that passes the threshold, its conditions and the random
  draw schedules its task whatever orders the customer holds.
\<close>

theorem lookup_failure_lets_rule_trigger:
  "checkExistingService s True cid sid = (None, [ErrorCheckingExistingService])
   \<and> (lookup_fails e \<longrightarrow>
        processRule eng sn now oid cid d cl so s e rule =
          (case processRule eng sn now oid cid d cl so (s\<lparr>service_orders := []\<rparr>)
                  (e\<lparr>lookup_fails := False\<rparr>) rule of
             (s1, ts) \<Rightarrow> (s1\<lparr>service_orders := service_orders s\<rparr>, ts))
        \<and> (conversionThreshold eng \<le> conversionRate rule
             \<and> fst (evaluateConditions sn now (rule_conditions rule) cl so)
             \<and> draw e < conversionRate rule \<and> \<not> create_fails e \<longrightarrow>
             map task_rule (snd (processRule eng sn now oid cid d cl so s e rule)) = [rule]))"
  by (auto simp: checkExistingService_def findOne_service_orders_def processRule_def
      create_cascade_trigger_def Let_def)

theorem lookup_failure_lets_rule_trigger_witness:
  "lookup_fails failing_rule_env
   \<and> conversionThreshold ex_engine \<le> conversionRate ex_rule
   \<and> fst (evaluateConditions no_strnum 0 (rule_conditions ex_rule) ex_client (ex_order 10 1))
   \<and> draw failing_rule_env < conversionRate ex_rule \<and> \<not> create_fails failing_rule_env
   \<and> length (orders_for held_store 1 2) = 1
   \<and> map task_rule (snd failed_lookup_step) = [ex_rule]
   \<and> length (orders_for failed_lookup_final 1 2) = 2"
  using lookup_failure_lets_rule_trigger
          [where e = failing_rule_env and eng = ex_engine and sn = no_strnum and now = 0
             and oid = 10 and cid = 1 and d = 0 and cl = ex_client and so = "ex_order 10 1"
             and s = held_store and rule = ex_rule]
  by (simp add: more_example_defs example_defs cascade_ops store_ops orders_for_def)

text \<open>The depth guard and the depth an order is created with.\<close>

lemma depth_guard:
  "maxCascadeDepth eng \<le> d \<Longrightarrow>
   triggerCascade eng sn now s env oid cid d
     = (if isInitialized eng then Inr (s, []) else Inl CascadeServiceError)"
  by (simp add: triggerCascade_def)

lemma created_order_depth:
  "set (service_orders (createTriggeredService sn s e rule cl trg d))
     \<subseteq> set (service_orders s) \<union> {ord. stored_depth ord = Suc d}"
  by (auto simp: createTriggeredService_def mark_failed_def store_ops stored_depth_def Let_def
      split: sum.splits option.splits if_splits)

lemma handler_depth_zero:
  assumes "handleServiceCompletion eng sn now s tf env oid cid = (s', ts)"
  shows "\<forall>t\<in>set ts. task_depth t = 0"
proof (cases "tf \<or> (\<exists>err. triggerCascade eng sn now s env oid cid 0 = Inl err)")
  case True
  with assms show ?thesis by (auto simp: handleServiceCompletion_def split: if_splits)
next
  case False
  with assms have "triggerCascade eng sn now s env oid cid 0 = Inr (s', ts)"
    by (auto simp: handleServiceCompletion_def split: sum.splits)
  from triggerCascade_result [OF this] show ?thesis by blast
qed

text \<open>
  C5, at the failing input. A customer's order for service 1 completes and cascades to
  service 2, whose order completes and cascades to service 3, and so on to service 5: the
  completion handler starts every evaluation at depth 0, so each created order stores depth
  1 and the fourth hop, at depth 3 of the chain, still produces a cascade although the
  maximum depth is 3.
\<close>

theorem depth_not_carried_across_chain:
  "map ord_service_id (service_orders chain_4) = [1, 2, 3, 4, 5]
   \<and> map stored_depth (service_orders chain_4) = [0, 1, 1, 1, 1]
   \<and> maxCascadeDepth chain_engine = 3"
  by (simp add: chain_4_def chain_3_def chain_2_def chain_1_def chain_engine_def chain_row_def
      chain_store_def chain_service_def complete_and_cascade_def complete_order_def
      stored_depth_def example_defs cascade_ops store_ops)






section \<open>Pricing\<close>

lemmas pricing_ops =
  calculateOptimalPrice_def capped_price_def apply_factors_def getCreditScoreFactor_def
  getVehicleValueFactor_def getLoyaltyFactor_def getSeasonalFactor_def getMarketFactor_def
  getVolumeFactor_def estimateServiceCost_def or_one_def complexityFactors_def
  round_cents_def js_round_def js_gt_def js_le_def findById_services_def Let_def

lemmas pricing_example_defs =
  price_optimizer_def initialized_optimizer_def default_pricing_rules_def
  default_seasonal_factors_def default_market_conditions_def price_store_def
  price_profiles_def price_client_def ex_client_def no_options_def no_strnum_def









text \<open>
  C6, as the code has it. \<open>calculateOptimalPrice\<close> returns a price exactly when the
  optimizer is initialized, the service lookup succeeds and finds the service, and the
  client profile is found; in every other case it throws the revenue service error to its
  caller. Where it returns, a missing (undefined or null) credit score or vehicle value and
  a category without seasonal or market entry give the factor 1, and a missing services
  count gives the loyalty factor of a new client.
\<close>

theorem pricing_returns_or_throws:
  "(opt_isInitialized opt \<and> \<not> f \<and> find (\<lambda>sv. svc_id sv = sid) (services s) \<noteq> None
      \<and> revenue_profiles s cid \<noteq> None
    \<longrightarrow> (\<exists>p. calculateOptimalPrice opt sn month s f sid cid opts = Inr p))
   \<and> (\<not> (opt_isInitialized opt \<and> \<not> f \<and> find (\<lambda>sv. svc_id sv = sid) (services s) \<noteq> None
          \<and> revenue_profiles s cid \<noteq> None)
      \<longrightarrow> calculateOptimalPrice opt sn month s f sid cid opts = Inl RevenueServiceError)
   \<and> getCreditScoreFactor opt sn JUndefined = 1 \<and> getCreditScoreFactor opt sn JNull = 1
   \<and> getVehicleValueFactor opt sn JUndefined = 1 \<and> getVehicleValueFactor opt sn JNull = 1
   \<and> getLoyaltyFactor opt sn JUndefined = ld_new (pricingRules opt)
   \<and> getLoyaltyFactor opt sn JNull = ld_new (pricingRules opt)
   \<and> (map_of (seasonalFactors opt) cat = None \<longrightarrow> getSeasonalFactor opt month cat = 1)
   \<and> (map_of (marketConditions opt) cat = None \<longrightarrow> getMarketFactor opt cat = 1)"
proof (intro conjI impI)
  assume "opt_isInitialized opt \<and> \<not> f \<and> find (\<lambda>sv. svc_id sv = sid) (services s) \<noteq> None
      \<and> revenue_profiles s cid \<noteq> None"
  then show "\<exists>p. calculateOptimalPrice opt sn month s f sid cid opts = Inr p"
    by (auto simp: calculateOptimalPrice_def findById_services_def Let_def)
next
  assume "\<not> (opt_isInitialized opt \<and> \<not> f \<and> find (\<lambda>sv. svc_id sv = sid) (services s) \<noteq> None
          \<and> revenue_profiles s cid \<noteq> None)"
  then show "calculateOptimalPrice opt sn month s f sid cid opts = Inl RevenueServiceError"
    by (auto simp: calculateOptimalPrice_def findById_services_def Let_def
        split: option.splits)
qed (simp_all add: getCreditScoreFactor_def getVehicleValueFactor_def getLoyaltyFactor_def
       getSeasonalFactor_def getMarketFactor_def)

theorem pricing_returns_or_throws_witness:
  "opt_isInitialized price_optimizer
   \<and> find (\<lambda>sv. svc_id sv = 1) (services price_store) \<noteq> None
   \<and> revenue_profiles price_store 1 \<noteq> None
   \<and> (\<exists>p. calculateOptimalPrice price_optimizer no_strnum 1 price_store False 1 1 no_options
             = Inr p)
   \<and> revenue_profiles price_store 7 = None
   \<and> calculateOptimalPrice price_optimizer no_strnum 1 price_store False 1 7 no_options
       = Inl RevenueServiceError
   \<and> map_of (seasonalFactors price_optimizer) ''legal'' = None
   \<and> getSeasonalFactor price_optimizer 1 ''legal'' = 1"
  using pricing_returns_or_throws
          [where opt = price_optimizer and f = False and sid = 1 and s = price_store
             and cid = 1 and sn = no_strnum and month = 1 and opts = no_options
             and cat = "''legal''"]
        pricing_returns_or_throws
          [where opt = price_optimizer and f = False and sid = 1 and s = price_store
             and cid = 7 and sn = no_strnum and month = 1 and opts = no_options
             and cat = "''legal''"]
  by (simp add: price_optimizer_def initialized_optimizer_def default_seasonal_factors_def
      price_store_def price_profiles_def)

text \<open>
  C6, as the claim states it, fails: for a service id that no service has, the caller gets
  the error and no price.
\<close>

theorem pricing_throws_counterexample:
  "calculateOptimalPrice price_optimizer no_strnum 1 price_store False 2 1 no_options
     = Inl RevenueServiceError"
  by (simp add: pricing_example_defs pricing_ops)

end
